theory Spec2Isabelle
  imports Main "HOL-Library.Multiset" "HOL-Library.Product_Lexorder"
begin

section \<open>Text and the library functions of the handlers\<close>

text \<open>
  A Python \<^verbatim>\<open>str\<close> is a sequence of Unicode code points, here a list of integers; \<open>ascii\<close> writes one from an ASCII literal. The handlers of
  \<^verbatim>\<open>src/app.py\<close> normalise form fields with \<^verbatim>\<open>str.strip()\<close> and
  \<^verbatim>\<open>str.lower()\<close>, parse the mood score with \<^verbatim>\<open>int(...)\<close> and hash passwords with
  werkzeug.
\<close>

type_synonym str = "int list"

definition ascii :: "string \<Rightarrow> str" where
  "ascii s = map of_char s"

text \<open>
  The functions that come from outside the repository and rest on tables or on
  randomness are parameters of the model: werkzeug's \<^verbatim>\<open>generate_password_hash\<close> (with
  the salt it draws) and \<^verbatim>\<open>check_password_hash\<close>, Python's \<^verbatim>\<open>str.lower\<close>, the
  decimal digit value that the Unicode database gives a code point (what \<^verbatim>\<open>int\<close>
  consults above ASCII), and the interpreter's limit on the digits of an integer literal
  (\<^verbatim>\<open>sys.get_int_max_str_digits()\<close>, 4300 by default, 0 for none).
\<close>

record library =
  generate_password_hash :: "str \<Rightarrow> str \<Rightarrow> str"
  check_password_hash :: "str \<Rightarrow> str \<Rightarrow> bool"
  str_lower :: "str \<Rightarrow> str"
  unicode_decimal :: "int \<Rightarrow> int option"
  int_max_str_digits :: int

text \<open>The code points that \<^verbatim>\<open>str.strip()\<close> removes and \<^verbatim>\<open>str.isspace()\<close> accepts:
  U+0009 to U+000D, U+001C to U+0020, U+0085, U+00A0, U+1680, U+2000 to U+200A, U+2028,
  U+2029, U+202F, U+205F and U+3000.\<close>

definition is_space :: "int \<Rightarrow> bool" where
  "is_space c =
     ((9 \<le> c \<and> c \<le> 13) \<or> (28 \<le> c \<and> c \<le> 32) \<or> c = 133 \<or> c = 160 \<or> c = 5760 \<or>
      (8192 \<le> c \<and> c \<le> 8202) \<or> c = 8232 \<or> c = 8233 \<or> c = 8239 \<or> c = 8287 \<or> c = 12288)"

definition strip :: "str \<Rightarrow> str" where
  "strip s = rev (dropWhile is_space (rev (dropWhile is_space s)))"

text \<open>
  \<^verbatim>\<open>int(s)\<close> on a \<^verbatim>\<open>str\<close>, base 10, as CPython computes it. The string is first
  brought to ASCII: a code point below 127 stays, a white space above becomes a blank, a
  decimal digit above becomes its ASCII digit, anything else a question mark. The ASCII
  parser then skips the C white space (9 to 13 and 32, not 28 to 31), takes one sign,
  then a run of digits and underscores that neither starts nor ends with an underscore
  nor has two in a row, then C white space to the end. More digits than the limit
  allows are refused. Every refusal is a \<^verbatim>\<open>ValueError\<close>, here the result \<open>None\<close>.
\<close>

definition to_ascii :: "library \<Rightarrow> int \<Rightarrow> int" where
  "to_ascii L c =
     (if c < 127 then c
      else if is_space c then 32
      else (case unicode_decimal L c of Some k \<Rightarrow> 48 + k | None \<Rightarrow> 63))"

definition c_isspace :: "int \<Rightarrow> bool" where
  "c_isspace c = ((9 \<le> c \<and> c \<le> 13) \<or> c = 32)"

definition is_digit :: "int \<Rightarrow> bool" where
  "is_digit c = (48 \<le> c \<and> c \<le> 57)"

fun no_double_underscore :: "int list \<Rightarrow> bool" where
  "no_double_underscore (a # b # cs) = (\<not> (a = 95 \<and> b = 95) \<and> no_double_underscore (b # cs))"
| "no_double_underscore cs = True"

definition py_int :: "library \<Rightarrow> str \<Rightarrow> int option" where
  "py_int L s =
     (let t = dropWhile c_isspace (map (to_ascii L) s);
          neg = (t \<noteq> [] \<and> hd t = 45);
          u = (if t \<noteq> [] \<and> (hd t = 45 \<or> hd t = 43) then tl t else t);
          body = takeWhile (\<lambda>c. is_digit c \<or> c = 95) u;
          rest = dropWhile (\<lambda>c. is_digit c \<or> c = 95) u;
          ds = filter is_digit body
      in if body = [] \<or> hd body = 95 \<or> last body = 95 \<or> \<not> no_double_underscore body then None
         else if \<not> list_all c_isspace rest then None
         else if 0 < int_max_str_digits L \<and> int_max_str_digits L < int (length ds) then None
         else Some ((if neg then - 1 else 1) * foldl (\<lambda>a c. a * 10 + (c - 48)) 0 ds))"

section \<open>The relational store\<close>

text \<open>
  The tables that \<^verbatim>\<open>init_db\<close> creates, as lists of rows in insertion order. Each
  \<^verbatim>\<open>SERIAL\<close> primary key is drawn from a sequence, kept as the last value issued; a
  PostgreSQL sequence is not transactional, so a value drawn by a failed
  \<^verbatim>\<open>INSERT\<close> is not given back. \<^verbatim>\<open>TIMESTAMP\<close> values are integers (a count of
  clock ticks), the \<^verbatim>\<open>0/1\<close> flags are integers as in the schema. The table
  \<^verbatim>\<open>date_ideas\<close> is created but no route reads or writes it; it is left out.
\<close>

record user_row =
  u_id :: int
  username :: str
  password :: str
  display_name :: str
  partner_id :: "int option"

record todo_row =
  t_id :: int
  t_user_id :: int
  t_text :: str
  t_done :: int
  t_created_at :: int

record mood_row =
  m_id :: int
  m_user_id :: int
  m_score :: int
  m_note :: str
  m_created_at :: int

record note_row =
  n_id :: int
  from_user :: int
  to_user :: int
  message :: str
  read_flag :: int
  n_created_at :: int

record db =
  users_t :: "user_row list"
  users_seq :: int
  todos_t :: "todo_row list"
  todos_seq :: int
  moods_t :: "mood_row list"
  moods_seq :: int
  notes_t :: "note_row list"
  notes_seq :: int

definition init_db :: db where
  "init_db = \<lparr>users_t = [], users_seq = 0, todos_t = [], todos_seq = 0,
              moods_t = [], moods_seq = 0, notes_t = [], notes_seq = 0\<rparr>"

datatype exn =
    BadRequestKeyError
  | ValueError
  | TypeError
  | UniqueViolation
  | ForeignKeyViolation
  | NumericValueOutOfRange
  | OperationalError

text \<open>
  psycopg2 quotes the parameters of a statement before it sends it, and refuses a string
  that contains the code point 0 (\<^verbatim>\<open>ValueError: A string literal cannot contain NUL
  (0x00) characters\<close>). So every statement with a string parameter has this error path,
  taken before the store sees the statement. Form values are what werkzeug decodes from
  UTF-8, so they hold no surrogate code points, and over the connection's UTF-8 encoding
  every code point other than 0 is sent and compared as it is.
\<close>

definition has_nul :: "str \<Rightarrow> bool" where
  "has_nul t = (0 \<in> set t)"

text \<open>\<^verbatim>\<open>SELECT * FROM users WHERE username = %s\<close> and \<^verbatim>\<open>... WHERE id = %s\<close>, read
  with \<^verbatim>\<open>fetchone()\<close>: the first matching row, or none.\<close>

definition select_user_by_username :: "db \<Rightarrow> str \<Rightarrow> exn + user_row option" where
  "select_user_by_username d name =
     (if has_nul name then Inl ValueError
      else Inr (find (\<lambda>u. username u = name) (users_t d)))"

definition select_user_by_id :: "db \<Rightarrow> int \<Rightarrow> user_row option" where
  "select_user_by_id d i = find (\<lambda>u. u_id u = i) (users_t d)"

definition user_exists :: "db \<Rightarrow> int \<Rightarrow> bool" where
  "user_exists d i = (i \<in> set (map u_id (users_t d)))"

text \<open>\<^verbatim>\<open>INSERT INTO users (username, password, display_name)\<close>: the id comes from the
  sequence, \<^verbatim>\<open>partner_id\<close> is NULL; \<^verbatim>\<open>username TEXT UNIQUE\<close> rejects a name that
  a row already has. The result is the store after the statement and the error raised,
  if any.\<close>

definition insert_user :: "db \<Rightarrow> str \<Rightarrow> str \<Rightarrow> str \<Rightarrow> db \<times> exn option" where
  "insert_user d name pw dn =
     (if has_nul name \<or> has_nul pw \<or> has_nul dn then (d, Some ValueError)
      else
        let i = users_seq d + 1; d1 = d\<lparr>users_seq := i\<rparr> in
        if name \<in> set (map username (users_t d)) then (d1, Some UniqueViolation)
        else (d1\<lparr>users_t := users_t d @
                   [\<lparr>u_id = i, username = name, password = pw, display_name = dn,
                     partner_id = None\<rparr>]\<rparr>, None))"

text \<open>\<^verbatim>\<open>UPDATE users SET partner_id = %s WHERE id = %s\<close> on a users table.\<close>

definition update_partner :: "int \<Rightarrow> int \<Rightarrow> user_row list \<Rightarrow> user_row list" where
  "update_partner p i us = map (\<lambda>u. if u_id u = i then u\<lparr>partner_id := Some p\<rparr> else u) us"

text \<open>\<^verbatim>\<open>INSERT INTO todos (user_id, text)\<close>: \<^verbatim>\<open>done\<close> defaults to 0 and
  \<^verbatim>\<open>created_at\<close> to the current time; \<^verbatim>\<open>user_id REFERENCES users(id)\<close>.\<close>

definition insert_todo :: "db \<Rightarrow> int \<Rightarrow> int \<Rightarrow> str \<Rightarrow> db \<times> exn option" where
  "insert_todo d now uid txt =
     (if has_nul txt then (d, Some ValueError)
      else
        let i = todos_seq d + 1; d1 = d\<lparr>todos_seq := i\<rparr> in
        if \<not> user_exists d uid then (d1, Some ForeignKeyViolation)
        else (d1\<lparr>todos_t := todos_t d @
                   [\<lparr>t_id = i, t_user_id = uid, t_text = txt, t_done = 0,
                     t_created_at = now\<rparr>]\<rparr>, None))"

text \<open>\<^verbatim>\<open>INSERT INTO moods (user_id, score, note)\<close>: \<^verbatim>\<open>score INTEGER\<close> is a 32-bit
  column.\<close>

definition insert_mood :: "db \<Rightarrow> int \<Rightarrow> int \<Rightarrow> int \<Rightarrow> str \<Rightarrow> db \<times> exn option" where
  "insert_mood d now uid score note =
     (if has_nul note then (d, Some ValueError)
      else if score < - (2 ^ 31) \<or> 2 ^ 31 \<le> score then (d, Some NumericValueOutOfRange)
      else
        let i = moods_seq d + 1; d1 = d\<lparr>moods_seq := i\<rparr> in
        if \<not> user_exists d uid then (d1, Some ForeignKeyViolation)
        else (d1\<lparr>moods_t := moods_t d @
                   [\<lparr>m_id = i, m_user_id = uid, m_score = score, m_note = note,
                     m_created_at = now\<rparr>]\<rparr>, None))"

text \<open>\<^verbatim>\<open>INSERT INTO notes (from_user, to_user, message)\<close>: \<^verbatim>\<open>read\<close> defaults to 0.\<close>

definition insert_note :: "db \<Rightarrow> int \<Rightarrow> int \<Rightarrow> int \<Rightarrow> str \<Rightarrow> db \<times> exn option" where
  "insert_note d now sender receiver msg =
     (if has_nul msg then (d, Some ValueError)
      else
        let i = notes_seq d + 1; d1 = d\<lparr>notes_seq := i\<rparr> in
        if \<not> user_exists d sender \<or> \<not> user_exists d receiver then (d1, Some ForeignKeyViolation)
        else (d1\<lparr>notes_t := notes_t d @
                   [\<lparr>n_id = i, from_user = sender, to_user = receiver, message = msg,
                     read_flag = 0, n_created_at = now\<rparr>]\<rparr>, None))"

text \<open>
  \<^verbatim>\<open>SELECT * FROM todos WHERE user_id = %s ORDER BY done ASC, created_at DESC\<close>, the
  query the dashboard runs for the user and for the partner. SQL leaves the order of
  rows with equal keys open; the model keeps them in table order.
\<close>

definition todo_key :: "todo_row \<Rightarrow> int \<times> int" where
  "todo_key t = (t_done t, - t_created_at t)"

definition select_todos :: "db \<Rightarrow> int \<Rightarrow> todo_row list" where
  "select_todos d uid = sort_key todo_key (filter (\<lambda>t. t_user_id t = uid) (todos_t d))"

text \<open>\<^verbatim>\<open>UPDATE notes SET read = 1 WHERE to_user = %s\<close>.\<close>

definition mark_read :: "int \<Rightarrow> note_row list \<Rightarrow> note_row list" where
  "mark_read uid ns = map (\<lambda>n. if to_user n = uid then n\<lparr>read_flag := 1\<rparr> else n) ns"

text \<open>
  The listing query of \<^verbatim>\<open>notes\<close>: \<^verbatim>\<open>notes JOIN users u1 ON notes.from_user = u1.id
  JOIN users u2 ON notes.to_user = u2.id WHERE notes.from_user = %s OR notes.to_user = %s
  ORDER BY notes.created_at DESC\<close>. A row of the result is the note with
  \<^verbatim>\<open>sender_name\<close> and \<^verbatim>\<open>receiver_name\<close>.
\<close>

type_synonym note_view = "note_row \<times> str \<times> str"

definition join_notes :: "db \<Rightarrow> note_view list" where
  "join_notes d =
     [(n, display_name u1, display_name u2).
        n \<leftarrow> notes_t d,
        u1 \<leftarrow> users_t d, from_user n = u_id u1,
        u2 \<leftarrow> users_t d, to_user n = u_id u2]"

definition select_notes :: "db \<Rightarrow> int \<Rightarrow> note_view list" where
  "select_notes d uid =
     sort_key (\<lambda>v. - n_created_at (fst v))
       (filter (\<lambda>v. from_user (fst v) = uid \<or> to_user (fst v) = uid) (join_notes d))"

text \<open>With user ids unique and every note's sender and receiver present in the users
  table, the join pairs a note with exactly one sender row and one receiver row;
  \<open>annotate\<close> is the row of the result that the note then gives.\<close>

definition annotate :: "db \<Rightarrow> note_row \<Rightarrow> note_view" where
  "annotate d n =
     (n, display_name (the (select_user_by_id d (from_user n))),
         display_name (the (select_user_by_id d (to_user n))))"

section \<open>Requests, sessions and replies\<close>

text \<open>
  A request carries its method, its form (\<^verbatim>\<open>request.form\<close>, from field name to
  value) and the session of the browser that sent it, of which the handlers use the
  entry \<^verbatim>\<open>user_id\<close> only. A handler's reply is the store it leaves behind, the
  session, the messages it flashed and either the page it returned or the exception that
  left it uncaught.
\<close>

datatype http_method = GET | POST

type_synonym form = "string \<rightharpoonup> str"

type_synonym session = "int option"

text \<open>The flashed messages, by what they say: \<open>WrongCredentials\<close> is
  \<^verbatim>\<open>'Wrong username or password'\<close>, \<open>AccountCreated\<close> is \<^verbatim>\<open>'Account created! Log in
  now'\<close>, \<open>UsernameTaken\<close> is \<^verbatim>\<open>'That username is taken'\<close>, \<open>PartnerNotFound\<close> is
  \<^verbatim>\<open>"Couldn't find that user"\<close>, \<open>PartnerIsSelf\<close> is \<^verbatim>\<open>"That's you! Enter your
  partner's username"\<close>, \<open>Linked n\<close> is \<^verbatim>\<open>"Linked with n!"\<close> and \<open>NoteSent\<close> is
  \<^verbatim>\<open>'Note sent'\<close>.\<close>

datatype notice =
    WrongCredentials
  | AccountCreated
  | UsernameTaken
  | PartnerNotFound
  | PartnerIsSelf
  | Linked str
  | NoteSent

text \<open>\<open>Redirect e\<close> is \<^verbatim>\<open>redirect(url_for(e))\<close>; the other pages are the templates
  with the values they are rendered with.\<close>

datatype page =
    Redirect string
  | LoginPage
  | RegisterPage
  | LinkPartnerPage "user_row option"
  | DashboardPage user_row "user_row option" "todo_row list" "todo_row list"
  | NotesPage user_row "user_row option" "note_view list"

record reply =
  store :: db
  sess :: session
  notices :: "notice list"
  outcome :: "exn + page"

definition respond :: "db \<Rightarrow> session \<Rightarrow> notice list \<Rightarrow> page \<Rightarrow> reply" where
  "respond d s ns p = \<lparr>store = d, sess = s, notices = ns, outcome = Inr p\<rparr>"

definition raises :: "db \<Rightarrow> session \<Rightarrow> exn \<Rightarrow> reply" where
  "raises d s e = \<lparr>store = d, sess = s, notices = [], outcome = Inl e\<rparr>"

definition login_required :: "db \<Rightarrow> session \<Rightarrow> (int \<Rightarrow> reply) \<Rightarrow> reply" where
  "login_required d s f =
     (case s of None \<Rightarrow> respond d s [] (Redirect ''login'') | Some uid \<Rightarrow> f uid)"

definition current_user :: "db \<Rightarrow> session \<Rightarrow> user_row option" where
  "current_user d s = (case s of None \<Rightarrow> None | Some uid \<Rightarrow> select_user_by_id d uid)"

text \<open>\<^verbatim>\<open>not user['partner_id']\<close> holds for NULL and for 0.\<close>

definition get_partner :: "db \<Rightarrow> user_row option \<Rightarrow> user_row option" where
  "get_partner d user =
     (case user of
        None \<Rightarrow> None
      | Some u \<Rightarrow>
          (case partner_id u of
             None \<Rightarrow> None
           | Some p \<Rightarrow> if p = 0 then None else select_user_by_id d p))"

section \<open>The route handlers\<close>

definition index :: "db \<Rightarrow> session \<Rightarrow> reply" where
  "index d s =
     (if s \<noteq> None then respond d s [] (Redirect ''dashboard'')
      else respond d s [] (Redirect ''login''))"

definition login :: "library \<Rightarrow> db \<Rightarrow> session \<Rightarrow> http_method \<Rightarrow> form \<Rightarrow> reply" where
  "login L d s meth frm =
     (if meth = POST then
        (case frm ''username'' of
           None \<Rightarrow> raises d s BadRequestKeyError
         | Some un \<Rightarrow>
        (case frm ''password'' of
           None \<Rightarrow> raises d s BadRequestKeyError
         | Some pw \<Rightarrow>
        (case select_user_by_username d (str_lower L (strip un)) of
           Inl e \<Rightarrow> raises d s e
         | Inr None \<Rightarrow> respond d s [WrongCredentials] LoginPage
         | Inr (Some user) \<Rightarrow>
             if check_password_hash L (password user) pw
             then respond d (Some (u_id user)) [] (Redirect ''dashboard'')
             else respond d s [WrongCredentials] LoginPage)))
      else respond d s [] LoginPage)"

text \<open>\<open>salt\<close> is the salt that \<^verbatim>\<open>generate_password_hash\<close> draws for this request.
  The handler catches \<^verbatim>\<open>UniqueViolation\<close> only; any other error of the
  \<^verbatim>\<open>INSERT\<close> leaves it.\<close>

definition register ::
  "library \<Rightarrow> str \<Rightarrow> db \<Rightarrow> session \<Rightarrow> http_method \<Rightarrow> form \<Rightarrow> reply" where
  "register L salt d s meth frm =
     (if meth = POST then
        (case frm ''username'' of
           None \<Rightarrow> raises d s BadRequestKeyError
         | Some un \<Rightarrow>
        (case frm ''display_name'' of
           None \<Rightarrow> raises d s BadRequestKeyError
         | Some dn \<Rightarrow>
        (case frm ''password'' of
           None \<Rightarrow> raises d s BadRequestKeyError
         | Some pw \<Rightarrow>
        (case insert_user d (str_lower L (strip un)) (generate_password_hash L salt pw) (strip dn) of
           (d', None) \<Rightarrow> respond d' s [AccountCreated] (Redirect ''login'')
         | (d', Some e) \<Rightarrow>
             if e = UniqueViolation
             then respond (d\<lparr>users_seq := users_seq d'\<rparr>) s [UsernameTaken] RegisterPage
             else raises (d\<lparr>users_seq := users_seq d'\<rparr>) s e))))
      else respond d s [] RegisterPage)"

text \<open>
  \<open>link_partner\<close> runs its statements on one connection: the \<^verbatim>\<open>SELECT\<close> (statement
  0), the two \<^verbatim>\<open>UPDATE\<close>s (1 and 2) and \<^verbatim>\<open>conn.commit()\<close> (3). psycopg2 opens a
  transaction at the first statement and nothing is stored before the commit. \<open>fault\<close>
  is the statement at which the store raises an error, if any; the handler catches
  nothing, so the exception leaves it, the connection is dropped with the transaction
  open, and the store keeps what was committed before.
\<close>

definition execute :: "nat option \<Rightarrow> nat \<Rightarrow> 'a \<Rightarrow> exn + 'a" where
  "execute fault k r = (if fault = Some k then Inl OperationalError else Inr r)"

definition link_partner ::
  "library \<Rightarrow> nat option \<Rightarrow> db \<Rightarrow> session \<Rightarrow> http_method \<Rightarrow> form \<Rightarrow> reply" where
  "link_partner L fault d s meth frm =
     login_required d s (\<lambda>uid.
       let user = current_user d s in
       if meth = POST then
         (case frm ''partner_username'' of
            None \<Rightarrow> raises d s BadRequestKeyError
          | Some pu \<Rightarrow>
         (case select_user_by_username d (str_lower L (strip pu)) of
            Inl e \<Rightarrow> raises d s e
          | Inr found \<Rightarrow>
         (case execute fault 0 found of
            Inl e \<Rightarrow> raises d s e
          | Inr None \<Rightarrow> respond d s [PartnerNotFound] (LinkPartnerPage user)
          | Inr (Some partner) \<Rightarrow>
         (case user of
            None \<Rightarrow> raises d s TypeError
          | Some u \<Rightarrow>
              if u_id partner = u_id u then respond d s [PartnerIsSelf] (LinkPartnerPage user)
              else
                (case execute fault 1 (update_partner (u_id partner) (u_id u) (users_t d)) of
                   Inl e \<Rightarrow> raises d s e
                 | Inr w1 \<Rightarrow>
                (case execute fault 2 (update_partner (u_id u) (u_id partner) w1) of
                   Inl e \<Rightarrow> raises d s e
                 | Inr w2 \<Rightarrow>
                (case execute fault 3 (d\<lparr>users_t := w2\<rparr>) of
                   Inl e \<Rightarrow> raises d s e
                 | Inr d' \<Rightarrow>
                     respond d' s [Linked (display_name partner)] (Redirect ''dashboard''))))))))
       else respond d s [] (LinkPartnerPage user))"

definition logout :: "db \<Rightarrow> session \<Rightarrow> reply" where
  "logout d s = respond d None [] (Redirect ''login'')"

definition dashboard :: "db \<Rightarrow> session \<Rightarrow> reply" where
  "dashboard d s =
     login_required d s (\<lambda>uid.
       let user = current_user d s; partner = get_partner d user in
       (case user of
          None \<Rightarrow> raises d s TypeError
        | Some u \<Rightarrow>
            let my_todos = select_todos d (u_id u);
                partner_todos = (case partner of None \<Rightarrow> [] | Some p \<Rightarrow> select_todos d (u_id p))
            in respond d s [] (DashboardPage u partner my_todos partner_todos)))"

definition add_todo :: "int \<Rightarrow> db \<Rightarrow> session \<Rightarrow> form \<Rightarrow> reply" where
  "add_todo now d s frm =
     login_required d s (\<lambda>uid.
       (case frm ''text'' of
          None \<Rightarrow> raises d s BadRequestKeyError
        | Some t \<Rightarrow>
            let txt = strip t in
            if txt \<noteq> [] then
              (case insert_todo d now uid txt of
                 (d', None) \<Rightarrow> respond d' s [] (Redirect ''dashboard'')
               | (d', Some e) \<Rightarrow> raises (d\<lparr>todos_seq := todos_seq d'\<rparr>) s e)
            else respond d s [] (Redirect ''dashboard'')))"

text \<open>\<open>todo_id\<close> is the integer that the route \<^verbatim>\<open>/todo/toggle/<int:todo_id>\<close> parsed.\<close>

definition toggle_todo :: "db \<Rightarrow> session \<Rightarrow> int \<Rightarrow> reply" where
  "toggle_todo d s todo_id =
     login_required d s (\<lambda>uid.
       (case find (\<lambda>t. t_id t = todo_id) (todos_t d) of
          None \<Rightarrow> respond d s [] (Redirect ''dashboard'')
        | Some todo \<Rightarrow>
            if t_user_id todo = uid then
              let new_state = (if t_done todo \<noteq> 0 then 0 else 1) in
              respond
                (d\<lparr>todos_t :=
                     map (\<lambda>t. if t_id t = todo_id then t\<lparr>t_done := new_state\<rparr> else t) (todos_t d)\<rparr>)
                s [] (Redirect ''dashboard'')
            else respond d s [] (Redirect ''dashboard'')))"

definition delete_todo :: "db \<Rightarrow> session \<Rightarrow> int \<Rightarrow> reply" where
  "delete_todo d s todo_id =
     login_required d s (\<lambda>uid.
       respond
         (d\<lparr>todos_t := filter (\<lambda>t. \<not> (t_id t = todo_id \<and> t_user_id t = uid)) (todos_t d)\<rparr>)
         s [] (Redirect ''dashboard''))"

text \<open>\<^verbatim>\<open>int(request.form['score'])\<close> is evaluated first; the handler has no
  \<^verbatim>\<open>try\<close>, so its \<^verbatim>\<open>ValueError\<close> leaves the handler.\<close>

definition log_mood :: "library \<Rightarrow> int \<Rightarrow> db \<Rightarrow> session \<Rightarrow> form \<Rightarrow> reply" where
  "log_mood L now d s frm =
     login_required d s (\<lambda>uid.
       (case frm ''score'' of
          None \<Rightarrow> raises d s BadRequestKeyError
        | Some sc \<Rightarrow>
       (case py_int L sc of
          None \<Rightarrow> raises d s ValueError
        | Some score \<Rightarrow>
            let note = strip (case frm ''note'' of None \<Rightarrow> [] | Some n \<Rightarrow> n) in
            (case insert_mood d now uid score note of
               (d', None) \<Rightarrow> respond d' s [] (Redirect ''dashboard'')
             | (d', Some e) \<Rightarrow> raises (d\<lparr>moods_seq := moods_seq d'\<rparr>) s e))))"

text \<open>The handler \<^verbatim>\<open>notes\<close> of the route \<^verbatim>\<open>/notes\<close> (\<open>notes\<close> is reserved in Isabelle).\<close>

definition notes_route :: "db \<Rightarrow> session \<Rightarrow> reply" where
  "notes_route d s =
     login_required d s (\<lambda>uid.
       let user = current_user d s; partner = get_partner d user in
       (case user of
          None \<Rightarrow> raises d s TypeError
        | Some u \<Rightarrow>
            let d' = d\<lparr>notes_t := mark_read (u_id u) (notes_t d)\<rparr>;
                all_notes = select_notes d' (u_id u)
            in respond d' s [] (NotesPage u partner all_notes)))"

definition send_note :: "int \<Rightarrow> db \<Rightarrow> session \<Rightarrow> form \<Rightarrow> reply" where
  "send_note now d s frm =
     login_required d s (\<lambda>uid.
       let user = current_user d s; partner = get_partner d user in
       (case frm ''message'' of
          None \<Rightarrow> raises d s BadRequestKeyError
        | Some m \<Rightarrow>
            let msg = strip m in
            (case partner of
               None \<Rightarrow> respond d s [] (Redirect ''notes'')
             | Some p \<Rightarrow>
                 if msg \<noteq> [] then
                   (case user of
                      None \<Rightarrow> raises d s TypeError
                    | Some u \<Rightarrow>
                        (case insert_note d now (u_id u) (u_id p) msg of
                           (d', None) \<Rightarrow> respond d' s [NoteSent] (Redirect ''notes'')
                         | (d', Some e) \<Rightarrow> raises (d\<lparr>notes_seq := notes_seq d'\<rparr>) s e))
                 else respond d s [] (Redirect ''notes''))))"

section \<open>Runs of the application\<close>

text \<open>
  The exposed operations are the routes. An event is one request: the browser it comes
  from, the time of the store's clock, the salt drawn if it registers, and the route
  with its arguments. The world is the store and the session of every browser; a run
  handles a list of events in order, the store applying every statement.
\<close>

datatype request =
    Index
  | Login http_method form
  | Register http_method form
  | LinkPartner http_method form
  | Logout
  | Dashboard
  | AddTodo form
  | ToggleTodo int
  | DeleteTodo int
  | LogMood form
  | Notes
  | SendNote form

definition handle :: "library \<Rightarrow> int \<Rightarrow> str \<Rightarrow> db \<Rightarrow> session \<Rightarrow> request \<Rightarrow> reply" where
  "handle L now salt d s r =
     (case r of
        Index \<Rightarrow> index d s
      | Login m f \<Rightarrow> login L d s m f
      | Register m f \<Rightarrow> register L salt d s m f
      | LinkPartner m f \<Rightarrow> link_partner L None d s m f
      | Logout \<Rightarrow> logout d s
      | Dashboard \<Rightarrow> dashboard d s
      | AddTodo f \<Rightarrow> add_todo now d s f
      | ToggleTodo i \<Rightarrow> toggle_todo d s i
      | DeleteTodo i \<Rightarrow> delete_todo d s i
      | LogMood f \<Rightarrow> log_mood L now d s f
      | Notes \<Rightarrow> notes_route d s
      | SendNote f \<Rightarrow> send_note now d s f)"

record event =
  ev_client :: nat
  ev_now :: int
  ev_salt :: str
  ev_request :: request

type_synonym world = "db \<times> (nat \<Rightarrow> session)"

definition step :: "library \<Rightarrow> world \<Rightarrow> event \<Rightarrow> world" where
  "step L w e =
     (let r = handle L (ev_now e) (ev_salt e) (fst w) (snd w (ev_client e)) (ev_request e)
      in (store r, (snd w)(ev_client e := sess r)))"

definition run :: "library \<Rightarrow> world \<Rightarrow> event list \<Rightarrow> world" where
  "run L w es = foldl (step L) w es"

text \<open>
  What the schema and the driver guarantee of a store: the primary keys of users and
  todos and the usernames are unique, the ids in use were issued by their sequence,
  every note's sender and receiver are users (\<^verbatim>\<open>REFERENCES users(id)\<close>), and no stored
  username contains the code point 0.
\<close>

definition wf_db :: "db \<Rightarrow> bool" where
  "wf_db d =
     (distinct (map u_id (users_t d)) \<and> distinct (map username (users_t d)) \<and>
      distinct (map t_id (todos_t d)) \<and>
      list_all (\<lambda>u. u_id u \<le> users_seq d) (users_t d) \<and>
      list_all (\<lambda>t. t_id t \<le> todos_seq d) (todos_t d) \<and>
      list_all (\<lambda>n. user_exists d (from_user n) \<and> user_exists d (to_user n)) (notes_t d) \<and>
      list_all (\<lambda>u. \<not> has_nul (username u)) (users_t d))"

section \<open>Example data\<close>

text \<open>
  A concrete library and a small store, used to run the theorems below on explicit
  inputs. The example hash functions stand in for werkzeug's; \<open>example_lower\<close> lowers
  \<^verbatim>\<open>A-Z\<close>, which is what \<^verbatim>\<open>str.lower\<close> does on ASCII text, and the examples are ASCII
  up to single code points named in place. In the store Alice (id 1) and Bob (id 2) are
  linked, Carol (id 3) is not; Alice has three todo items, the oldest one done, and Bob
  has one.
\<close>

definition example_hash :: "str \<Rightarrow> str \<Rightarrow> str" where
  "example_hash salt pw = salt @ 36 # rev pw"

definition example_check :: "str \<Rightarrow> str \<Rightarrow> bool" where
  "example_check h pw = (dropWhile (\<lambda>c. c \<noteq> 36) h = 36 # rev pw)"

definition example_lower :: "str \<Rightarrow> str" where
  "example_lower s = map (\<lambda>c. if 65 \<le> c \<and> c \<le> 90 then c + 32 else c) s"

definition example_lib :: library where
  "example_lib =
     \<lparr>generate_password_hash = example_hash, check_password_hash = example_check,
      str_lower = example_lower, unicode_decimal = (\<lambda>c. None), int_max_str_digits = 4300\<rparr>"

definition alice :: user_row where
  "alice = \<lparr>u_id = 1, username = ascii ''alice'',
            password = example_hash (ascii ''s1'') (ascii ''secret1''),
            display_name = ascii ''Alice'', partner_id = None\<rparr>"

definition bob :: user_row where
  "bob = \<lparr>u_id = 2, username = ascii ''bob'',
          password = example_hash (ascii ''s2'') (ascii ''secret2''),
          display_name = ascii ''Bob'', partner_id = None\<rparr>"

definition carol :: user_row where
  "carol = \<lparr>u_id = 3, username = ascii ''carol'',
            password = example_hash (ascii ''s3'') (ascii ''secret3''),
            display_name = ascii ''Carol'', partner_id = None\<rparr>"

definition three_users :: db where
  "three_users = init_db\<lparr>users_t := [alice, bob, carol], users_seq := 3\<rparr>"

definition todo1 :: todo_row where
  "todo1 = \<lparr>t_id = 1, t_user_id = 1, t_text = ascii ''buy milk'', t_done = 1,
            t_created_at = 10\<rparr>"

definition todo2 :: todo_row where
  "todo2 = \<lparr>t_id = 2, t_user_id = 1, t_text = ascii ''call mum'', t_done = 0,
            t_created_at = 20\<rparr>"

definition todo3 :: todo_row where
  "todo3 = \<lparr>t_id = 3, t_user_id = 1, t_text = ascii ''book table'', t_done = 0,
            t_created_at = 30\<rparr>"

definition todo4 :: todo_row where
  "todo4 = \<lparr>t_id = 4, t_user_id = 2, t_text = ascii ''water plants'', t_done = 0,
            t_created_at = 40\<rparr>"

definition note1 :: note_row where
  "note1 = \<lparr>n_id = 1, from_user = 1, to_user = 2, message = ascii ''hi'', read_flag = 0,
            n_created_at = 50\<rparr>"

definition note2 :: note_row where
  "note2 = \<lparr>n_id = 2, from_user = 2, to_user = 1, message = ascii ''hello'', read_flag = 0,
            n_created_at = 60\<rparr>"

definition note3 :: note_row where
  "note3 = \<lparr>n_id = 3, from_user = 1, to_user = 2, message = ascii ''dinner?'', read_flag = 0,
            n_created_at = 70\<rparr>"

definition couple :: db where
  "couple =
     \<lparr>users_t = [alice\<lparr>partner_id := Some 2\<rparr>, bob\<lparr>partner_id := Some 1\<rparr>, carol],
      users_seq = 3,
      todos_t = [todo1, todo2, todo3, todo4], todos_seq = 4,
      moods_t = [], moods_seq = 0,
      notes_t = [note1, note2, note3], notes_seq = 3\<rparr>"

definition form1 :: "string \<Rightarrow> str \<Rightarrow> form" where
  "form1 k v = [k \<mapsto> v]"

definition login_form :: "str \<Rightarrow> str \<Rightarrow> form" where
  "login_form un pw = [''username'' \<mapsto> un, ''password'' \<mapsto> pw]"

definition register_form :: "str \<Rightarrow> str \<Rightarrow> str \<Rightarrow> form" where
  "register_form un dn pw = [''username'' \<mapsto> un, ''display_name'' \<mapsto> dn, ''password'' \<mapsto> pw]"

text \<open>A run from the empty store in one browser: Alice, Bob and Carol register, Alice
  logs in, links with Bob and then links with Carol.\<close>

definition relink_run :: "event list" where
  "relink_run =
     [\<lparr>ev_client = 0, ev_now = 1, ev_salt = ascii ''s1'',
        ev_request = Register POST
          (register_form (ascii ''alice'') (ascii ''Alice'') (ascii ''secret1''))\<rparr>,
      \<lparr>ev_client = 0, ev_now = 2, ev_salt = ascii ''s2'',
        ev_request = Register POST
          (register_form (ascii ''bob'') (ascii ''Bob'') (ascii ''secret2''))\<rparr>,
      \<lparr>ev_client = 0, ev_now = 3, ev_salt = ascii ''s3'',
        ev_request = Register POST
          (register_form (ascii ''carol'') (ascii ''Carol'') (ascii ''secret3''))\<rparr>,
      \<lparr>ev_client = 0, ev_now = 4, ev_salt = [],
        ev_request = Login POST (login_form (ascii ''alice'') (ascii ''secret1''))\<rparr>,
      \<lparr>ev_client = 0, ev_now = 5, ev_salt = [],
        ev_request = LinkPartner POST (form1 ''partner_username'' (ascii ''bob''))\<rparr>,
      \<lparr>ev_client = 0, ev_now = 6, ev_salt = [],
        ev_request = LinkPartner POST (form1 ''partner_username'' (ascii ''carol''))\<rparr>]"

section \<open>Lookups by key\<close>

lemma find_username_None:
  "(find (\<lambda>x. username x = n) us = None) = (n \<notin> set (map username us))"
  by (induction us) auto

lemma find_username_Some:
  "find (\<lambda>x. username x = n) us = Some u \<Longrightarrow> u \<in> set us \<and> username u = n"
  by (induction us) (auto split: if_splits)

lemma find_username_distinct:
  "distinct (map username us) \<Longrightarrow> u \<in> set us \<Longrightarrow> find (\<lambda>x. username x = username u) us = Some u"
  by (induction us) auto

lemma find_id_Some:
  "find (\<lambda>x. u_id x = i) us = Some u \<Longrightarrow> u \<in> set us \<and> u_id u = i"
  by (induction us) (auto split: if_splits)

lemma find_id_distinct:
  "distinct (map u_id us) \<Longrightarrow> u \<in> set us \<Longrightarrow> find (\<lambda>x. u_id x = u_id u) us = Some u"
  by (induction us) auto

lemma find_id_update_partner:
  "find (\<lambda>x. u_id x = i) (update_partner p j us) =
   map_option (\<lambda>u. if u_id u = j then u\<lparr>partner_id := Some p\<rparr> else u) (find (\<lambda>x. u_id x = i) us)"
  by (induction us) (auto simp: update_partner_def)

lemma find_todo_Some:
  "find (\<lambda>x. t_id x = i) ts = Some t \<Longrightarrow> t \<in> set ts \<and> t_id t = i"
  by (induction ts) (auto split: if_splits)

lemma find_todo_distinct:
  "distinct (map t_id ts) \<Longrightarrow> t \<in> set ts \<Longrightarrow> find (\<lambda>x. t_id x = t_id t) ts = Some t"
  by (induction ts) auto


lemma select_user_by_username_found:
  "select_user_by_username d n = Inr (Some u) \<Longrightarrow>
   \<not> has_nul n \<and> find (\<lambda>x. username x = n) (users_t d) = Some u"
  by (simp add: select_user_by_username_def split: if_splits)

section \<open>Python's integer literals\<close>

text \<open>\<open>py_int\<close> at inputs where \<^verbatim>\<open>int\<close> and \<^verbatim>\<open>str.strip\<close> differ: the separators 28
  to 31 are not skipped, a no-break space is; underscores stand between digits only; the
  digit limit counts leading zeros and not underscores or the sign.\<close>

lemma py_int_examples:
  "py_int example_lib [28, 53] = None"
  "py_int example_lib [53, 31] = None"
  "py_int example_lib [160, 53] = Some 5"
  "py_int example_lib [11, 53, 12288] = Some 5"
  "py_int example_lib (ascii '' +1_000 '') = Some 1000"
  "py_int example_lib (ascii ''-0_7'') = Some (- 7)"
  "py_int example_lib (ascii ''1__0'') = None"
  "py_int example_lib (ascii ''_1'') = None"
  "py_int example_lib (ascii ''1_'') = None"
  "py_int example_lib (ascii ''+ 1'') = None"
  "py_int example_lib [] = None"
  "py_int example_lib [53, 0] = None"
  "py_int (example_lib\<lparr>int_max_str_digits := 3\<rparr>) (ascii ''-0_001'') = None"
  "py_int (example_lib\<lparr>int_max_str_digits := 3\<rparr>) (ascii ''-0_01'') = Some (- 1)"
  "py_int (example_lib\<lparr>unicode_decimal := (\<lambda>c. if c = 1635 then Some 3 else None)\<rparr>) [1635]
     = Some 3"
  by code_simp+

section \<open>The schema's guarantees hold in every run\<close>

text \<open>Every handler keeps \<open>wf_db\<close>, so every store that a run reaches from the empty
  store has it; the uniqueness and foreign-key assumptions of the theorems below are
  properties of all such stores.\<close>

lemma wf_init_db: "wf_db init_db"
  by (simp add: wf_db_def init_db_def)

lemma update_partner_keys:
  "map u_id (update_partner p i us) = map u_id us"
  "map username (update_partner p i us) = map username us"
  by (induction us) (auto simp: update_partner_def)

lemma list_all_update_partner:
  "list_all (\<lambda>u. u_id u \<le> k) (update_partner p i us) = list_all (\<lambda>u. u_id u \<le> k) us"
  "list_all (\<lambda>u. \<not> has_nul (username u)) (update_partner p i us) =
   list_all (\<lambda>u. \<not> has_nul (username u)) us"
  by (induction us) (auto simp: update_partner_def)

lemma update_partner_ids:
  "u_id ` set (update_partner p i us) = u_id ` set us"
  using update_partner_keys(1) [of p i us] by (metis set_map)

lemma mark_read_parties:
  "list_all (\<lambda>n. from_user n \<in> A \<and> to_user n \<in> A) (mark_read i ns) =
   list_all (\<lambda>n. from_user n \<in> A \<and> to_user n \<in> A) ns"
  by (induction ns) (auto simp: mark_read_def)

lemma wf_index: "wf_db d \<Longrightarrow> wf_db (store (index d s))"
  by (simp add: index_def respond_def)

lemma wf_login: "wf_db d \<Longrightarrow> wf_db (store (login L d s m f))"
  by (simp add: login_def respond_def raises_def split: option.splits sum.splits)

lemma wf_logout: "wf_db d \<Longrightarrow> wf_db (store (logout d s))"
  by (simp add: logout_def respond_def)

lemma wf_dashboard: "wf_db d \<Longrightarrow> wf_db (store (dashboard d s))"
  by (simp add: dashboard_def login_required_def respond_def raises_def Let_def split: option.splits)

lemma wf_register: "wf_db d \<Longrightarrow> wf_db (store (register L salt d s m f))"
  by (auto simp: register_def insert_user_def respond_def raises_def Let_def wf_db_def
      user_exists_def list_all_iff split: option.splits)

lemma wf_link_partner: "wf_db d \<Longrightarrow> wf_db (store (link_partner L None d s m f))"
  by (auto simp: link_partner_def login_required_def execute_def respond_def raises_def Let_def
      wf_db_def user_exists_def update_partner_keys update_partner_ids list_all_update_partner
      split: option.splits sum.splits)

lemma wf_add_todo: "wf_db d \<Longrightarrow> wf_db (store (add_todo now d s f))"
  by (auto simp: add_todo_def login_required_def insert_todo_def respond_def raises_def Let_def
      wf_db_def user_exists_def list_all_iff split: option.splits)

lemma toggle_keys:
  "map t_id (map (\<lambda>t. if t_id t = i then t\<lparr>t_done := b\<rparr> else t) ts) = map t_id ts"
  by (induction ts) auto

lemma toggle_bound:
  "list_all (\<lambda>t. t_id t \<le> k) (map (\<lambda>t. if t_id t = i then t\<lparr>t_done := b\<rparr> else t) ts) =
   list_all (\<lambda>t. t_id t \<le> k) ts"
  by (induction ts) auto

lemma wf_toggle_todo: "wf_db d \<Longrightarrow> wf_db (store (toggle_todo d s i))"
  by (auto simp: toggle_todo_def login_required_def respond_def Let_def
      wf_db_def user_exists_def toggle_keys toggle_bound simp del: map_map split: option.splits)

lemma wf_delete_todo: "wf_db d \<Longrightarrow> wf_db (store (delete_todo d s i))"
  by (auto simp: delete_todo_def login_required_def respond_def
      wf_db_def user_exists_def list_all_iff distinct_map_filter split: option.splits)

lemma wf_log_mood: "wf_db d \<Longrightarrow> wf_db (store (log_mood L now d s f))"
  by (auto simp: log_mood_def login_required_def insert_mood_def respond_def raises_def Let_def
      wf_db_def user_exists_def list_all_iff split: option.splits)

lemma wf_notes_route: "wf_db d \<Longrightarrow> wf_db (store (notes_route d s))"
  by (auto simp: notes_route_def login_required_def respond_def raises_def Let_def
      wf_db_def user_exists_def mark_read_parties split: option.splits)

lemma wf_send_note: "wf_db d \<Longrightarrow> wf_db (store (send_note now d s f))"
  by (auto simp: send_note_def login_required_def insert_note_def respond_def raises_def Let_def
      wf_db_def user_exists_def list_all_iff split: option.splits)

lemma wf_handle: "wf_db d \<Longrightarrow> wf_db (store (handle L now salt d s r))"
  by (cases r)
    (simp_all add: handle_def wf_index wf_login wf_logout wf_dashboard wf_register
      wf_link_partner wf_add_todo wf_toggle_todo wf_delete_todo wf_log_mood wf_notes_route
      wf_send_note)

lemma wf_run: "wf_db (fst w) \<Longrightarrow> wf_db (fst (run L w es))"
proof (induction es arbitrary: w)
  case Nil
  then show ?case by (simp add: run_def)
next
  case (Cons e es)
  have "wf_db (fst (step L w e))"
    using Cons.prems by (simp add: step_def Let_def wf_handle)
  then have "wf_db (fst (run L (step L w e) es))"
    by (rule Cons.IH)
  then show ?case by (simp add: run_def)
qed

lemma wf_reachable: "wf_db (fst (run L (init_db, ss) es))"
  by (rule wf_run) (simp add: wf_init_db)

lemma three_users_reachable:
  "fst (run example_lib (init_db, \<lambda>c. None) (take 3 relink_run)) = three_users"
  by code_simp

lemma wf_couple: "wf_db couple"
  by code_simp

section \<open>Login\<close>

text \<open>
  Claim C5, as the code has it. Usernames are unique in the users table (the
  \<^verbatim>\<open>UNIQUE\<close> constraint) and the form has its two fields; \<open>n\<close> is the trimmed,
  lowered username. One of three things happens. If \<open>n\<close> contains the code point 0,
  the lookup raises \<^verbatim>\<open>ValueError\<close>, which leaves the handler: no message, store and
  session as they were. Otherwise, if a stored user has the username \<open>n\<close> and a hash
  that verifies the password, the session is set to that user's id and the reply is the
  redirect to the dashboard. Otherwise (no such user, whether the name is unknown or
  the password wrong) the reply is always the same: the session as it was, the one
  message \<open>WrongCredentials\<close> and the login page.
\<close>

theorem login_iff:
  assumes "distinct (map username (users_t d))"
    and "frm ''username'' = Some un" and "frm ''password'' = Some pw"
  shows "(has_nul (str_lower L (strip un)) \<and> login L d s POST frm = raises d s ValueError)
         \<or> (\<not> has_nul (str_lower L (strip un)) \<and>
             (\<exists>u \<in> set (users_t d). username u = str_lower L (strip un) \<and>
                check_password_hash L (password u) pw \<and>
                login L d s POST frm = respond d (Some (u_id u)) [] (Redirect ''dashboard'')))
         \<or> (\<not> has_nul (str_lower L (strip un)) \<and>
             \<not> (\<exists>u \<in> set (users_t d). username u = str_lower L (strip un) \<and>
                check_password_hash L (password u) pw) \<and>
             login L d s POST frm = respond d s [WrongCredentials] LoginPage)"
proof (cases "has_nul (str_lower L (strip un))")
  case True
  then have "login L d s POST frm = raises d s ValueError"
    using assms(2,3) by (simp add: login_def select_user_by_username_def)
  then show ?thesis using True by blast
next
  case nul: False
  show ?thesis
  proof (cases "find (\<lambda>u. username u = str_lower L (strip un)) (users_t d)")
    case None
    then have "str_lower L (strip un) \<notin> set (map username (users_t d))"
      by (simp add: find_username_None)
    then have "\<not> (\<exists>u \<in> set (users_t d). username u = str_lower L (strip un) \<and>
        check_password_hash L (password u) pw)"
      by force
    moreover have "login L d s POST frm = respond d s [WrongCredentials] LoginPage"
      using None nul assms(2,3) by (simp add: login_def select_user_by_username_def)
    ultimately show ?thesis using nul by blast
  next
    case (Some u)
    then have u: "u \<in> set (users_t d)" "username u = str_lower L (strip un)"
      using find_username_Some by auto
    have only: "v = u" if "v \<in> set (users_t d)" "username v = str_lower L (strip un)" for v
    proof -
      have "find (\<lambda>x. username x = username v) (users_t d) = Some v"
        using assms(1) that(1) by (rule find_username_distinct)
      then show ?thesis using Some that(2) by simp
    qed
    show ?thesis
    proof (cases "check_password_hash L (password u) pw")
      case True
      then have "login L d s POST frm = respond d (Some (u_id u)) [] (Redirect ''dashboard'')"
        using Some nul assms(2,3) by (simp add: login_def select_user_by_username_def)
      then show ?thesis using u True nul by blast
    next
      case False
      then have "login L d s POST frm = respond d s [WrongCredentials] LoginPage"
        using Some nul assms(2,3) by (simp add: login_def select_user_by_username_def)
      moreover have "\<not> (\<exists>v \<in> set (users_t d). username v = str_lower L (strip un) \<and>
          check_password_hash L (password v) pw)"
        using only False by blast
      ultimately show ?thesis using nul by blast
    qed
  qed
qed

text \<open>Alice logs in as \<^verbatim>\<open>" Alice "\<close>; a wrong password and an unknown name get the
  same reply.\<close>

theorem login_iff_witness:
  "outcome (login example_lib three_users None POST
       (login_form (ascii '' Alice '') (ascii ''secret1''))) = Inr (Redirect ''dashboard'')
   \<and> sess (login example_lib three_users None POST
       (login_form (ascii '' Alice '') (ascii ''secret1''))) \<noteq> None
   \<and> login example_lib three_users None POST (login_form (ascii ''alice'') (ascii ''secret2''))
     = respond three_users None [WrongCredentials] LoginPage
   \<and> login example_lib three_users None POST (login_form (ascii ''dave'') (ascii ''secret1''))
     = respond three_users None [WrongCredentials] LoginPage"
proof -
  have h: "distinct (map username (users_t three_users))"
    by code_simp
  have f: "login_form un pw ''username'' = Some un" "login_form un pw ''password'' = Some pw"
    for un pw by (simp_all add: login_form_def)
  have n: "\<not> has_nul (str_lower example_lib (strip (ascii '' Alice '')))"
    "\<not> has_nul (str_lower example_lib (strip (ascii ''alice'')))"
    "\<not> has_nul (str_lower example_lib (strip (ascii ''dave'')))"
    by code_simp+
  have yes: "\<exists>u \<in> set (users_t three_users).
      username u = str_lower example_lib (strip (ascii '' Alice '')) \<and>
      check_password_hash example_lib (password u) (ascii ''secret1'')"
    by code_simp
  have no1: "\<not> (\<exists>u \<in> set (users_t three_users).
      username u = str_lower example_lib (strip (ascii ''alice'')) \<and>
      check_password_hash example_lib (password u) (ascii ''secret2''))"
    by code_simp
  have no2: "\<not> (\<exists>u \<in> set (users_t three_users).
      username u = str_lower example_lib (strip (ascii ''dave'')) \<and>
      check_password_hash example_lib (password u) (ascii ''secret1''))"
    by code_simp
  have a: "outcome (login example_lib three_users None POST
             (login_form (ascii '' Alice '') (ascii ''secret1''))) = Inr (Redirect ''dashboard'')
           \<and> sess (login example_lib three_users None POST
             (login_form (ascii '' Alice '') (ascii ''secret1''))) \<noteq> None"
    using login_iff [where L = example_lib and s = None and un = "ascii '' Alice ''"
        and pw = "ascii ''secret1''", OF h f] yes n(1)
    by (auto simp: respond_def)
  have b: "login example_lib three_users None POST (login_form (ascii ''alice'') (ascii ''secret2''))
             = respond three_users None [WrongCredentials] LoginPage"
    using login_iff [where L = example_lib and s = None and un = "ascii ''alice''"
        and pw = "ascii ''secret2''", OF h f] no1 n(2) by blast
  have c: "login example_lib three_users None POST (login_form (ascii ''dave'') (ascii ''secret1''))
             = respond three_users None [WrongCredentials] LoginPage"
    using login_iff [where L = example_lib and s = None and un = "ascii ''dave''"
        and pw = "ascii ''secret1''", OF h f] no2 n(3) by blast
  show ?thesis using a b c by blast
qed

text \<open>
  Claim C5, as it is stated, gives every failing combination the same generic message.
  The username \<^verbatim>\<open>a\<close> followed by the code point 0 is no stored user's, and the reply
  is not that message but the uncaught \<^verbatim>\<open>ValueError\<close>.
\<close>

theorem login_nul_username_raises:
  "login example_lib three_users None POST (login_form [97, 0] (ascii ''secret1''))
     = raises three_users None ValueError
   \<and> login example_lib three_users None POST (login_form [97, 0] (ascii ''secret1''))
     \<noteq> respond three_users None [WrongCredentials] LoginPage"
  by code_simp

section \<open>Registration\<close>

text \<open>
  Claim C4, as the code has it. A row of the users table already has the trimmed,
  lowered username of a registration request whose three fields are present. If that
  username, the password hash and the trimmed display name are free of the code point 0,
  the \<^verbatim>\<open>INSERT\<close> raises \<^verbatim>\<open>UniqueViolation\<close>, which is caught and rolled back: the
  reply is the message \<open>UsernameTaken\<close> on the registration page, and only the id
  sequence has moved on by one. If one of the three contains the code point 0, the driver
  raises \<^verbatim>\<open>ValueError\<close> before the statement is sent, and the handler does not catch
  it. Either way the users table is what it was (no row added, every existing row with
  its hash, display name and partner reference as before), and no other table changes.
\<close>

theorem register_duplicate_rejected:
  assumes "frm ''username'' = Some un" and "frm ''display_name'' = Some dn"
    and "frm ''password'' = Some pw"
    and "u \<in> set (users_t d)" and "username u = str_lower L (strip un)"
  shows "register L salt d s POST frm =
           (if has_nul (str_lower L (strip un)) \<or> has_nul (generate_password_hash L salt pw) \<or>
               has_nul (strip dn)
            then raises d s ValueError
            else respond (d\<lparr>users_seq := users_seq d + 1\<rparr>) s [UsernameTaken] RegisterPage)
         \<and> users_t (store (register L salt d s POST frm)) = users_t d
         \<and> todos_t (store (register L salt d s POST frm)) = todos_t d
         \<and> moods_t (store (register L salt d s POST frm)) = moods_t d
         \<and> notes_t (store (register L salt d s POST frm)) = notes_t d"
proof -
  have taken: "str_lower L (strip un) \<in> set (map username (users_t d))"
    using assms(4,5) by force
  have r: "register L salt d s POST frm =
           (if has_nul (str_lower L (strip un)) \<or> has_nul (generate_password_hash L salt pw) \<or>
               has_nul (strip dn)
            then raises d s ValueError
            else respond (d\<lparr>users_seq := users_seq d + 1\<rparr>) s [UsernameTaken] RegisterPage)"
    using assms(1-3) taken by (simp add: register_def insert_user_def Let_def)
  show ?thesis
    unfolding r by (simp add: respond_def raises_def)
qed

text \<open>A second registration as \<^verbatim>\<open>"ALICE  "\<close> leaves the three rows as they are.\<close>

theorem register_duplicate_rejected_witness:
  "register example_lib (ascii ''s9'') three_users None POST
      (register_form (ascii ''ALICE  '') (ascii ''Mallory'') (ascii ''pw''))
     = respond (three_users\<lparr>users_seq := 4\<rparr>) None [UsernameTaken] RegisterPage
   \<and> users_t (store (register example_lib (ascii ''s9'') three_users None POST
      (register_form (ascii ''ALICE  '') (ascii ''Mallory'') (ascii ''pw'')))) = [alice, bob, carol]"
proof -
  have f: "register_form (ascii ''ALICE  '') (ascii ''Mallory'') (ascii ''pw'') ''username''
             = Some (ascii ''ALICE  '')"
    "register_form (ascii ''ALICE  '') (ascii ''Mallory'') (ascii ''pw'') ''display_name''
             = Some (ascii ''Mallory'')"
    "register_form (ascii ''ALICE  '') (ascii ''Mallory'') (ascii ''pw'') ''password''
             = Some (ascii ''pw'')"
    by (simp_all add: register_form_def)
  have m: "alice \<in> set (users_t three_users)"
    by (simp add: three_users_def)
  have n: "username alice = str_lower example_lib (strip (ascii ''ALICE  ''))"
    by code_simp
  have z: "\<not> (has_nul (str_lower example_lib (strip (ascii ''ALICE  ''))) \<or>
      has_nul (generate_password_hash example_lib (ascii ''s9'') (ascii ''pw'')) \<or>
      has_nul (strip (ascii ''Mallory'')))"
    by code_simp
  have t: "users_t three_users = [alice, bob, carol]" "users_seq three_users + 1 = 4"
    by (simp_all add: three_users_def init_db_def)
  show ?thesis
    using register_duplicate_rejected
      [where L = example_lib and salt = "ascii ''s9''" and s = None, OF f m n] z t
    by (simp add: respond_def)
qed

text \<open>
  Claim C4, as it is stated, has every second registration fail with a uniqueness
  conflict. A second registration as \<^verbatim>\<open>alice\<close> whose display name is \<^verbatim>\<open>M\<close>
  followed by the code point 0 fails with the uncaught \<^verbatim>\<open>ValueError\<close> instead; the
  message \<open>UsernameTaken\<close> is not flashed.
\<close>

theorem register_duplicate_nul_raises:
  "str_lower example_lib (strip (ascii ''alice'')) \<in> set (map username (users_t three_users))
   \<and> register example_lib (ascii ''s9'') three_users None POST
        (register_form (ascii ''alice'') [77, 0] (ascii ''pw''))
      = raises three_users None ValueError"
  by code_simp




section \<open>Linking partners\<close>

text \<open>
  Claim C9, as the code has it. A logged-in user whose row exists posts a partner
  username; \<open>n\<close> is the trimmed, lowered name. If \<open>n\<close> contains the code point 0, the
  lookup raises \<^verbatim>\<open>ValueError\<close>, which leaves the handler. If the lookup runs and no
  row has the name \<open>n\<close>, or the row found is the user's own, the reply is the
  link-partner page with one message (\<open>PartnerNotFound\<close>, respectively
  \<open>PartnerIsSelf\<close>) and no exception. In all three cases the store and the session are
  exactly what they were; so a user without a partner who names themself still has
  none.
\<close>

theorem link_partner_rejected_no_change:
  assumes "s = Some uid" and "current_user d s = Some a"
    and "frm ''partner_username'' = Some pu"
  shows "(has_nul (str_lower L (strip pu)) \<longrightarrow>
            link_partner L fault d s POST frm = raises d s ValueError)
       \<and> (fault \<noteq> Some 0 \<and>
            (select_user_by_username d (str_lower L (strip pu)) = Inr None \<or>
             (\<exists>p. select_user_by_username d (str_lower L (strip pu)) = Inr (Some p) \<and>
                  u_id p = u_id a)) \<longrightarrow>
            link_partner L fault d s POST frm =
              respond d s
                [if select_user_by_username d (str_lower L (strip pu)) = Inr None
                 then PartnerNotFound else PartnerIsSelf]
                (LinkPartnerPage (Some a)))"
proof (intro conjI impI)
  assume "has_nul (str_lower L (strip pu))"
  then show "link_partner L fault d s POST frm = raises d s ValueError"
    using assms
    by (simp add: link_partner_def login_required_def select_user_by_username_def Let_def)
next
  assume "fault \<noteq> Some 0 \<and>
            (select_user_by_username d (str_lower L (strip pu)) = Inr None \<or>
             (\<exists>p. select_user_by_username d (str_lower L (strip pu)) = Inr (Some p) \<and>
                  u_id p = u_id a))"
  then show "link_partner L fault d s POST frm =
              respond d s
                [if select_user_by_username d (str_lower L (strip pu)) = Inr None
                 then PartnerNotFound else PartnerIsSelf]
                (LinkPartnerPage (Some a))"
    using assms by (auto simp: link_partner_def login_required_def execute_def Let_def)
qed

text \<open>Alice, registered and unlinked, names herself, then an unknown user, then a name
  with the code point 0.\<close>

theorem link_partner_rejected_no_change_witness:
  "link_partner example_lib None three_users (Some 1) POST
       (form1 ''partner_username'' (ascii ''Alice'')) =
     respond three_users (Some 1) [PartnerIsSelf] (LinkPartnerPage (Some alice))
   \<and> link_partner example_lib None three_users (Some 1) POST
       (form1 ''partner_username'' (ascii ''dave'')) =
     respond three_users (Some 1) [PartnerNotFound] (LinkPartnerPage (Some alice))
   \<and> link_partner example_lib None three_users (Some 1) POST
       (form1 ''partner_username'' [98, 0]) =
     raises three_users (Some 1) ValueError
   \<and> map partner_id (users_t three_users) = [None, None, None]"
proof -
  have c: "current_user three_users (Some 1) = Some alice"
    by code_simp
  have f: "form1 ''partner_username'' v ''partner_username'' = Some v" for v
    by (simp add: form1_def)
  have self: "select_user_by_username three_users (str_lower example_lib (strip (ascii ''Alice'')))
      = Inr (Some alice)"
    by code_simp
  have unknown: "select_user_by_username three_users (str_lower example_lib (strip (ascii ''dave'')))
      = Inr None"
    by code_simp
  have nul: "has_nul (str_lower example_lib (strip [98, 0]))"
    by code_simp
  have nf: "(None :: nat option) \<noteq> Some 0"
    by simp
  have a: "link_partner example_lib None three_users (Some 1) POST
       (form1 ''partner_username'' (ascii ''Alice'')) =
     respond three_users (Some 1) [PartnerIsSelf] (LinkPartnerPage (Some alice))"
    using link_partner_rejected_no_change
        [where frm = "form1 ''partner_username'' (ascii ''Alice'')" and pu = "ascii ''Alice''"
           and s = "Some 1" and uid = 1 and L = example_lib and fault = None, OF refl c f]
      self nf
    by simp
  have b: "link_partner example_lib None three_users (Some 1) POST
       (form1 ''partner_username'' (ascii ''dave'')) =
     respond three_users (Some 1) [PartnerNotFound] (LinkPartnerPage (Some alice))"
    using link_partner_rejected_no_change
        [where frm = "form1 ''partner_username'' (ascii ''dave'')" and pu = "ascii ''dave''"
           and s = "Some 1" and uid = 1 and L = example_lib and fault = None, OF refl c f]
      unknown nf
    by simp
  have z: "link_partner example_lib None three_users (Some 1) POST
       (form1 ''partner_username'' [98, 0]) =
     raises three_users (Some 1) ValueError"
    using link_partner_rejected_no_change
        [where frm = "form1 ''partner_username'' [98, 0]" and pu = "[98, 0]"
           and s = "Some 1" and uid = 1 and L = example_lib and fault = None, OF refl c f]
      nul
    by blast
  have p: "map partner_id (users_t three_users) = [None, None, None]"
    by (simp add: three_users_def alice_def bob_def carol_def)
  show ?thesis using a b z p by blast
qed

text \<open>
  Claim C9, as it is stated, has every target that is not found answered with a
  message. The target \<^verbatim>\<open>b\<close> followed by the code point 0 is no stored user's name,
  and the reply is no message but the uncaught \<^verbatim>\<open>ValueError\<close>.
\<close>

theorem link_partner_nul_target_raises:
  "find (\<lambda>u. username u = str_lower example_lib (strip [98, 0])) (users_t three_users) = None
   \<and> outcome (link_partner example_lib None three_users (Some 1) POST
        (form1 ''partner_username'' [98, 0])) = Inl ValueError
   \<and> notices (link_partner example_lib None three_users (Some 1) POST
        (form1 ''partner_username'' [98, 0])) = []"
  by code_simp

text \<open>
  Claim C3. A logged-in user A whose row exists names another existing user B (ids
  unique, as the primary key makes them). Whatever the store does, one of two things
  happens. Either no statement fails: the handler redirects to the dashboard and a read
  of both rows shows A with partner B and B with partner A. Or the lookup, one of the two
  updates or the commit fails: the exception leaves the handler and the store is
  exactly what it was, so an update that was applied before the failure is not kept.
\<close>

theorem link_partner_sets_both_atomically:
  assumes "distinct (map u_id (users_t d))"
    and "s = Some uid" and "current_user d s = Some a"
    and "frm ''partner_username'' = Some pu"
    and "select_user_by_username d (str_lower L (strip pu)) = Inr (Some b)"
    and "u_id b \<noteq> u_id a"
  shows "(fault \<notin> Some ` {0, 1, 2, 3} \<and>
          outcome (link_partner L fault d s POST frm) = Inr (Redirect ''dashboard'') \<and>
          select_user_by_id (store (link_partner L fault d s POST frm)) (u_id a) =
            Some (a\<lparr>partner_id := Some (u_id b)\<rparr>) \<and>
          select_user_by_id (store (link_partner L fault d s POST frm)) (u_id b) =
            Some (b\<lparr>partner_id := Some (u_id a)\<rparr>))
         \<or> (fault \<in> Some ` {0, 1, 2, 3} \<and>
          link_partner L fault d s POST frm = raises d s OperationalError)"
proof (cases "fault \<in> Some ` {0, 1, 2, 3}")
  case True
  then have "link_partner L fault d s POST frm = raises d s OperationalError"
    using assms(2-6)
    by (auto simp: link_partner_def login_required_def execute_def Let_def)
  then show ?thesis using True by blast
next
  case False
  then have f: "fault \<noteq> Some 0" "fault \<noteq> Some 1" "fault \<noteq> Some 2" "fault \<noteq> Some 3"
    by auto
  have r: "link_partner L fault d s POST frm =
      respond (d\<lparr>users_t := update_partner (u_id a) (u_id b)
                               (update_partner (u_id b) (u_id a) (users_t d))\<rparr>)
        s [Linked (display_name b)] (Redirect ''dashboard'')"
    using assms(2-6) f
    by (simp add: link_partner_def login_required_def execute_def Let_def)
  have "find (\<lambda>x. u_id x = uid) (users_t d) = Some a"
    using assms(2,3) by (simp add: current_user_def select_user_by_id_def)
  then have fa: "find (\<lambda>x. u_id x = u_id a) (users_t d) = Some a"
    using find_id_Some by fastforce
  have "b \<in> set (users_t d)"
    using select_user_by_username_found [OF assms(5)] find_username_Some by fastforce
  then have fb: "find (\<lambda>x. u_id x = u_id b) (users_t d) = Some b"
    using assms(1) by (simp add: find_id_distinct)
  have "select_user_by_id (store (link_partner L fault d s POST frm)) (u_id a) =
            Some (a\<lparr>partner_id := Some (u_id b)\<rparr>)"
    using assms(6) fa by (simp add: r respond_def select_user_by_id_def find_id_update_partner)
  moreover have "select_user_by_id (store (link_partner L fault d s POST frm)) (u_id b) =
            Some (b\<lparr>partner_id := Some (u_id a)\<rparr>)"
    using assms(6) fb by (simp add: r respond_def select_user_by_id_def find_id_update_partner)
  moreover have "outcome (link_partner L fault d s POST frm) = Inr (Redirect ''dashboard'')"
    by (simp add: r respond_def)
  ultimately show ?thesis using False by blast
qed

text \<open>Alice links with Bob; when the second update fails nothing is stored.\<close>

theorem link_partner_sets_both_atomically_witness:
  "select_user_by_id
     (store (link_partner example_lib None three_users (Some 1) POST
        (form1 ''partner_username'' (ascii '' Bob''))))
     1 = Some (alice\<lparr>partner_id := Some 2\<rparr>)
   \<and> select_user_by_id
     (store (link_partner example_lib None three_users (Some 1) POST
        (form1 ''partner_username'' (ascii '' Bob''))))
     2 = Some (bob\<lparr>partner_id := Some 1\<rparr>)
   \<and> link_partner example_lib (Some 2) three_users (Some 1) POST
        (form1 ''partner_username'' (ascii '' Bob'')) =
     raises three_users (Some 1) OperationalError"
proof -
  have h: "distinct (map u_id (users_t three_users))"
    by code_simp
  have c: "current_user three_users (Some 1) = Some alice"
    by code_simp
  have f: "form1 ''partner_username'' (ascii '' Bob'') ''partner_username'' = Some (ascii '' Bob'')"
    by (simp add: form1_def)
  have b: "select_user_by_username three_users (str_lower example_lib (strip (ascii '' Bob'')))
      = Inr (Some bob)"
    by code_simp
  have ne: "u_id bob \<noteq> u_id alice"
    by (simp add: alice_def bob_def)
  have ids: "u_id alice = 1" "u_id bob = 2"
    by (simp_all add: alice_def bob_def)
  have ok: "(None :: nat option) \<notin> Some ` {0, 1, 2, 3}"
    by simp
  have bad: "Some (2 :: nat) \<in> Some ` {0, 1, 2, 3}"
    by simp
  have x: "select_user_by_id
       (store (link_partner example_lib None three_users (Some 1) POST
          (form1 ''partner_username'' (ascii '' Bob''))))
       1 = Some (alice\<lparr>partner_id := Some 2\<rparr>)
     \<and> select_user_by_id
       (store (link_partner example_lib None three_users (Some 1) POST
          (form1 ''partner_username'' (ascii '' Bob''))))
       2 = Some (bob\<lparr>partner_id := Some 1\<rparr>)"
    using link_partner_sets_both_atomically
        [where frm = "form1 ''partner_username'' (ascii '' Bob'')" and s = "Some 1" and uid = 1
           and fault = None and L = example_lib, OF h refl c f b ne] ok ids by simp
  have y: "link_partner example_lib (Some 2) three_users (Some 1) POST
        (form1 ''partner_username'' (ascii '' Bob'')) =
     raises three_users (Some 1) OperationalError"
    using link_partner_sets_both_atomically
        [where frm = "form1 ''partner_username'' (ascii '' Bob'')" and s = "Some 1" and uid = 1
           and fault = "Some 2" and L = example_lib, OF h refl c f b ne] bad by blast
  show ?thesis using x y by blast
qed

section \<open>Todo items\<close>

lemma filter_others_toggle:
  assumes "\<forall>t \<in> set ts. t_id t = i \<longrightarrow> t_user_id t = uid"
  shows "filter (\<lambda>x. t_user_id x \<noteq> uid) (map (\<lambda>t. if t_id t = i then t\<lparr>t_done := b\<rparr> else t) ts)
         = filter (\<lambda>x. t_user_id x \<noteq> uid) ts"
  using assms by (induction ts) auto

lemma filter_others_delete:
  "filter (\<lambda>x. t_user_id x \<noteq> uid) (filter (\<lambda>t. \<not> (t_id t = i \<and> t_user_id t = uid)) ts)
   = filter (\<lambda>x. t_user_id x \<noteq> uid) ts"
  by (induction ts) auto

lemma filter_nothing:
  "\<forall>t \<in> set ts. t_id t = i \<longrightarrow> t_user_id t \<noteq> uid \<Longrightarrow>
   filter (\<lambda>t. \<not> (t_id t = i \<and> t_user_id t = uid)) ts = ts"
  by (induction ts) auto

text \<open>
  Claim C6. With todo ids unique (the primary key) and a logged-in user, a toggle or a
  delete of any id leaves the rows owned by other users as they are: the same rows with
  the same fields, in the same order. And when no row with the requested id is owned by
  the user (the id is absent, or the item is someone else's), the whole store is
  unchanged and the reply is the plain redirect to the dashboard, without a message,
  that any toggle or delete gets.
\<close>

theorem todo_of_other_user_unchanged:
  assumes "distinct (map t_id (todos_t d))" and "s = Some uid"
  shows "filter (\<lambda>x. t_user_id x \<noteq> uid) (todos_t (store (toggle_todo d s i)))
           = filter (\<lambda>x. t_user_id x \<noteq> uid) (todos_t d)
       \<and> filter (\<lambda>x. t_user_id x \<noteq> uid) (todos_t (store (delete_todo d s i)))
           = filter (\<lambda>x. t_user_id x \<noteq> uid) (todos_t d)
       \<and> ((\<forall>t \<in> set (todos_t d). t_id t = i \<longrightarrow> t_user_id t \<noteq> uid) \<longrightarrow>
            toggle_todo d s i = respond d s [] (Redirect ''dashboard'') \<and>
            delete_todo d s i = respond d s [] (Redirect ''dashboard''))"
proof (intro conjI impI)
  show "filter (\<lambda>x. t_user_id x \<noteq> uid) (todos_t (store (toggle_todo d s i)))
           = filter (\<lambda>x. t_user_id x \<noteq> uid) (todos_t d)"
  proof (cases "find (\<lambda>t. t_id t = i) (todos_t d)")
    case None
    then show ?thesis using assms(2)
      by (simp add: toggle_todo_def login_required_def respond_def)
  next
    case (Some todo)
    show ?thesis
    proof (cases "t_user_id todo = uid")
      case False
      then show ?thesis using assms(2) Some
        by (simp add: toggle_todo_def login_required_def respond_def)
    next
      case True
      have "\<forall>t \<in> set (todos_t d). t_id t = i \<longrightarrow> t_user_id t = uid"
      proof (intro ballI impI)
        fix t assume t: "t \<in> set (todos_t d)" "t_id t = i"
        have "find (\<lambda>x. t_id x = t_id t) (todos_t d) = Some t"
          using assms(1) t(1) by (rule find_todo_distinct)
        then have "t = todo" using Some t(2) by simp
        then show "t_user_id t = uid" using True by simp
      qed
      then show ?thesis using assms(2) Some True
        by (simp add: toggle_todo_def login_required_def respond_def Let_def filter_others_toggle)
    qed
  qed
next
  show "filter (\<lambda>x. t_user_id x \<noteq> uid) (todos_t (store (delete_todo d s i)))
           = filter (\<lambda>x. t_user_id x \<noteq> uid) (todos_t d)"
    using assms(2) filter_others_delete [of uid i "todos_t d"]
    by (simp add: delete_todo_def login_required_def respond_def del: filter_filter)
next
  assume no: "\<forall>t \<in> set (todos_t d). t_id t = i \<longrightarrow> t_user_id t \<noteq> uid"
  show "toggle_todo d s i = respond d s [] (Redirect ''dashboard'')"
  proof (cases "find (\<lambda>t. t_id t = i) (todos_t d)")
    case None
    then show ?thesis using assms(2) by (simp add: toggle_todo_def login_required_def)
  next
    case (Some todo)
    then have "t_user_id todo \<noteq> uid" using find_todo_Some no by blast
    then show ?thesis using assms(2) Some by (simp add: toggle_todo_def login_required_def)
  qed
  show "delete_todo d s i = respond d s [] (Redirect ''dashboard'')"
    using assms(2) no by (simp add: delete_todo_def login_required_def filter_nothing)
qed

text \<open>Bob asks to toggle and to delete Alice's item 1 and the absent item 99; when he
  toggles his own item 4, Alice's three items stay as they are.\<close>

theorem todo_of_other_user_unchanged_witness:
  "toggle_todo couple (Some 2) 1 = respond couple (Some 2) [] (Redirect ''dashboard'')
   \<and> delete_todo couple (Some 2) 1 = respond couple (Some 2) [] (Redirect ''dashboard'')
   \<and> toggle_todo couple (Some 2) 99 = respond couple (Some 2) [] (Redirect ''dashboard'')
   \<and> delete_todo couple (Some 2) 99 = respond couple (Some 2) [] (Redirect ''dashboard'')
   \<and> filter (\<lambda>x. t_user_id x \<noteq> 2) (todos_t (store (toggle_todo couple (Some 2) 4)))
       = [todo1, todo2, todo3]"
proof -
  have h: "distinct (map t_id (todos_t couple))"
    by code_simp
  have n1: "\<forall>t \<in> set (todos_t couple). t_id t = 1 \<longrightarrow> t_user_id t \<noteq> 2"
    by code_simp
  have n99: "\<forall>t \<in> set (todos_t couple). t_id t = 99 \<longrightarrow> t_user_id t \<noteq> 2"
    by code_simp
  have o: "filter (\<lambda>x. t_user_id x \<noteq> 2) (todos_t couple) = [todo1, todo2, todo3]"
    by code_simp
  have a: "toggle_todo couple (Some 2) 1 = respond couple (Some 2) [] (Redirect ''dashboard'')
     \<and> delete_todo couple (Some 2) 1 = respond couple (Some 2) [] (Redirect ''dashboard'')"
    using todo_of_other_user_unchanged [OF h refl, of 2 1] n1 by blast
  have b: "toggle_todo couple (Some 2) 99 = respond couple (Some 2) [] (Redirect ''dashboard'')
     \<and> delete_todo couple (Some 2) 99 = respond couple (Some 2) [] (Redirect ''dashboard'')"
    using todo_of_other_user_unchanged [OF h refl, of 2 99] n99 by blast
  have c: "filter (\<lambda>x. t_user_id x \<noteq> 2) (todos_t (store (toggle_todo couple (Some 2) 4)))
       = [todo1, todo2, todo3]"
    using todo_of_other_user_unchanged [OF h refl, of 2 4] o by simp
  show ?thesis using a b c by blast
qed

lemma sorted_select_todos:
  "sorted_wrt (\<lambda>x y. t_done x < t_done y \<or> (t_done x = t_done y \<and> t_created_at y \<le> t_created_at x))
     (select_todos d uid)"
proof -
  have "sorted (map todo_key (select_todos d uid))"
    by (simp add: select_todos_def)
  then have "sorted_wrt (\<lambda>x y. todo_key x \<le> todo_key y) (select_todos d uid)"
    by (simp add: sorted_map)
  then show ?thesis
    by (rule sorted_wrt_mono_rel[rotated]) (auto simp: todo_key_def)
qed

text \<open>
  Claim C7. The list of a user's todo items, as the dashboard query selects it, holds
  exactly the rows of the todos table owned by that user, each as often as the table has
  it; and it is ordered: of two items, the one with the smaller \<open>done\<close> value comes
  first (not done before done), and of two with the same \<open>done\<close> value the one created
  later comes first. The dashboard of a logged-in user shows this list for the user and
  the same list, built by the same query, for the partner (the empty list without one).
\<close>

theorem list_for_user_ordered:
  "mset (select_todos d uid) = mset (filter (\<lambda>t. t_user_id t = uid) (todos_t d))
   \<and> sorted_wrt (\<lambda>x y. t_done x < t_done y \<or> (t_done x = t_done y \<and> t_created_at y \<le> t_created_at x))
       (select_todos d uid)
   \<and> (s = Some i \<and> current_user d s = Some u \<longrightarrow>
        dashboard d s =
          respond d s []
            (DashboardPage u (get_partner d (Some u)) (select_todos d (u_id u))
               (case get_partner d (Some u) of None \<Rightarrow> [] | Some p \<Rightarrow> select_todos d (u_id p))))"
proof (intro conjI impI)
  show "mset (select_todos d uid) = mset (filter (\<lambda>t. t_user_id t = uid) (todos_t d))"
    by (simp add: select_todos_def)
  show "sorted_wrt (\<lambda>x y. t_done x < t_done y \<or> (t_done x = t_done y \<and> t_created_at y \<le> t_created_at x))
       (select_todos d uid)"
    by (rule sorted_select_todos)
next
  assume "s = Some i \<and> current_user d s = Some u"
  then have "s = Some i" and "current_user d (Some i) = Some u" by auto
  then show "dashboard d s =
          respond d s []
            (DashboardPage u (get_partner d (Some u)) (select_todos d (u_id u))
               (case get_partner d (Some u) of None \<Rightarrow> [] | Some p \<Rightarrow> select_todos d (u_id p)))"
    by (simp add: dashboard_def login_required_def Let_def)
qed

text \<open>Alice's items have done = 1, 0, 0 and creation times 10, 20, 30: Bob's dashboard
  lists his own item and then hers, the two open ones newest first, the done one last.\<close>

theorem list_for_user_ordered_witness:
  "mset (select_todos couple 1) = mset (filter (\<lambda>t. t_user_id t = 1) (todos_t couple))
   \<and> sorted_wrt (\<lambda>x y. t_done x < t_done y \<or> (t_done x = t_done y \<and> t_created_at y \<le> t_created_at x))
       (select_todos couple 1)
   \<and> dashboard couple (Some 2) =
       respond couple (Some 2) []
         (DashboardPage (bob\<lparr>partner_id := Some 1\<rparr>) (Some (alice\<lparr>partner_id := Some 2\<rparr>))
            [todo4] [todo3, todo2, todo1])"
proof -
  have c: "Some (2 :: int) = Some 2 \<and> current_user couple (Some 2) = Some (bob\<lparr>partner_id := Some 1\<rparr>)"
    by code_simp
  have p: "get_partner couple (Some (bob\<lparr>partner_id := Some 1\<rparr>)) = Some (alice\<lparr>partner_id := Some 2\<rparr>)"
    by code_simp
  have i: "u_id (bob\<lparr>partner_id := Some 1\<rparr>) = 2" "u_id (alice\<lparr>partner_id := Some 2\<rparr>) = 1"
    by (simp_all add: alice_def bob_def)
  have l: "select_todos couple 2 = [todo4]" "select_todos couple 1 = [todo3, todo2, todo1]"
    by code_simp+
  show ?thesis
    using list_for_user_ordered [of couple 1 "Some 2" 2 "bob\<lparr>partner_id := Some 1\<rparr>"] c
    by (simp add: p i l)
qed

section \<open>Mood log\<close>

text \<open>
  Claim C2, as the code has it. A logged-in user posts a mood whose \<^verbatim>\<open>score\<close> field
  is present and is not an integer literal that \<^verbatim>\<open>int\<close> accepts. The handler raises
  \<^verbatim>\<open>ValueError\<close> before it touches the store and does not catch it: the exception
  leaves the handler, no message is flashed, and the store, the moods table in
  particular, is what it was.
\<close>

theorem log_mood_malformed_score:
  assumes "s = Some uid" and "frm ''score'' = Some sc" and "py_int L sc = None"
  shows "log_mood L now d s frm = raises d s ValueError
         \<and> moods_t (store (log_mood L now d s frm)) = moods_t d"
  using assms by (simp add: log_mood_def login_required_def raises_def)

text \<open>Alice posts the score \<^verbatim>\<open>4.5\<close>.\<close>

theorem log_mood_malformed_score_witness:
  "log_mood example_lib 100 couple (Some 1) (form1 ''score'' (ascii ''4.5''))
     = raises couple (Some 1) ValueError
   \<and> moods_t (store (log_mood example_lib 100 couple (Some 1) (form1 ''score'' (ascii ''4.5''))))
     = []"
proof -
  have f: "form1 ''score'' (ascii ''4.5'') ''score'' = Some (ascii ''4.5'')"
    by (simp add: form1_def)
  have n: "py_int example_lib (ascii ''4.5'') = None"
    by code_simp
  have m: "moods_t couple = []"
    by (simp add: couple_def)
  show ?thesis
    using log_mood_malformed_score
      [where s = "Some 1" and uid = 1 and frm = "form1 ''score'' (ascii ''4.5'')" and now = 100
         and d = couple and L = example_lib, OF refl f n] m
    by (simp add: raises_def)
qed

text \<open>
  Claim C2, as it is stated, asks that the failure be recovered within the handler. It
  is not: for the score \<^verbatim>\<open>abc\<close>, which is no integer, the handler returns no page;
  its outcome is the uncaught \<^verbatim>\<open>ValueError\<close>.
\<close>

theorem log_mood_not_recovered:
  "py_int example_lib (ascii ''abc'') = None
   \<and> outcome (log_mood example_lib 100 couple (Some 1) (form1 ''score'' (ascii ''abc'')))
     = Inl ValueError"
  by code_simp

section \<open>Partner symmetry over runs\<close>

text \<open>
  Claim C1. The run \<open>relink_run\<close> starts from the empty store, where no partner
  reference is set, and uses registration, login and partner linking only. After it
  Alice (id 1) has partner Carol (id 3) and Carol has partner Alice, but Bob (id 2) still
  has partner Alice: the second link overwrote Alice's reference and left Bob's, so
  Bob's reference is not answered by Alice's.
\<close>

theorem relink_leaves_dangling_partner:
  "map (\<lambda>u. (username u, u_id u, partner_id u))
     (users_t (fst (run example_lib (init_db, \<lambda>c. None) relink_run)))
   = [(ascii ''alice'', 1, Some 3), (ascii ''bob'', 2, Some 1), (ascii ''carol'', 3, Some 1)]"
  by code_simp

section \<open>Notes\<close>

lemma join_none:
  "i \<notin> set (map u_id us) \<Longrightarrow> concat (map (\<lambda>x. if i = u_id x then h x else []) us) = []"
  by (induction us) auto

lemma join_one:
  "distinct (map u_id us) \<Longrightarrow> i \<in> set (map u_id us) \<Longrightarrow>
   concat (map (\<lambda>x. if i = u_id x then h x else []) us) = h (the (find (\<lambda>x. u_id x = i) us))"
proof (induction us)
  case Nil
  then show ?case by simp
next
  case (Cons x xs)
  show ?case
  proof (cases "i = u_id x")
    case True
    then have "i \<notin> set (map u_id xs)" using Cons.prems(1) by auto
    then show ?thesis using True by (simp add: join_none)
  next
    case False
    then show ?thesis using Cons by auto
  qed
qed

lemma join_notes_annotate:
  assumes "distinct (map u_id (users_t d))"
    and "\<forall>n \<in> set (notes_t d). user_exists d (from_user n) \<and> user_exists d (to_user n)"
  shows "join_notes d = map (annotate d) (notes_t d)"
proof -
  have "concat (map (\<lambda>u1. if from_user n = u_id u1
            then concat (map (\<lambda>u2. if to_user n = u_id u2
                    then [(n, display_name u1, display_name u2)] else []) (users_t d))
            else []) (users_t d)) = [annotate d n]"
    if "n \<in> set (notes_t d)" for n
  proof -
    have f: "from_user n \<in> set (map u_id (users_t d))" and t: "to_user n \<in> set (map u_id (users_t d))"
      using assms(2) that by (auto simp: user_exists_def)
    show ?thesis
      by (simp add: join_one [OF assms(1) f] join_one [OF assms(1) t] annotate_def
          select_user_by_id_def)
  qed
  then show ?thesis
    by (simp add: join_notes_def cong: map_cong)
qed


lemma mark_read_keeps_parties:
  "map from_user (mark_read i ns) = map from_user ns \<and> map to_user (mark_read i ns) = map to_user ns"
  by (induction ns) (auto simp: mark_read_def)

lemma mark_read_set:
  "n' \<in> set (mark_read i ns) \<Longrightarrow>
   \<exists>n \<in> set ns. from_user n' = from_user n \<and> to_user n' = to_user n \<and>
     (to_user n' = i \<longrightarrow> read_flag n' = 1)"
  by (induction ns) (auto simp: mark_read_def)

text \<open>
  Claim C8. A logged-in user whose row exists opens the notes page; user ids are unique
  and every note's sender and receiver are rows of the users table (the primary key and
  the foreign keys of the schema). The handler first stores the notes table with the read
  flag set to 1 on every note addressed to the user, whatever the flag was, and every
  other note as it was. The page then lists, from that table, exactly the notes that the
  user sent or received, each once per row of the table, ordered by creation time with
  the newest first, and each carrying the display name of its sender and of its
  receiver.
\<close>

theorem notes_marks_read_and_lists:
  assumes "distinct (map u_id (users_t d))"
    and "\<forall>n \<in> set (notes_t d). user_exists d (from_user n) \<and> user_exists d (to_user n)"
    and "s = Some uid" and "current_user d s = Some u"
  shows "notes_route d s =
           respond (store (notes_route d s)) s []
             (NotesPage u (get_partner d (Some u)) (select_notes (store (notes_route d s)) (u_id u)))
       \<and> store (notes_route d s) =
           d\<lparr>notes_t := map (\<lambda>n. if to_user n = u_id u then n\<lparr>read_flag := 1\<rparr> else n) (notes_t d)\<rparr>
       \<and> (\<forall>n \<in> set (notes_t (store (notes_route d s))). to_user n = u_id u \<longrightarrow> read_flag n = 1)
       \<and> mset (map fst (select_notes (store (notes_route d s)) (u_id u))) =
           mset (filter (\<lambda>n. from_user n = u_id u \<or> to_user n = u_id u)
                  (notes_t (store (notes_route d s))))
       \<and> sorted_wrt (\<lambda>x y. n_created_at (fst y) \<le> n_created_at (fst x))
           (select_notes (store (notes_route d s)) (u_id u))
       \<and> (\<forall>v \<in> set (select_notes (store (notes_route d s)) (u_id u)).
            map_option display_name (select_user_by_id d (from_user (fst v))) = Some (fst (snd v)) \<and>
            map_option display_name (select_user_by_id d (to_user (fst v))) = Some (snd (snd v)))"
proof -
  define d' where "d' = d\<lparr>notes_t := mark_read (u_id u) (notes_t d)\<rparr>"
  have cu: "current_user d (Some uid) = Some u"
    using assms(3,4) by simp
  have r: "notes_route d s = respond d' s [] (NotesPage u (get_partner d (Some u)) (select_notes d' (u_id u)))"
    using assms(3) cu by (simp add: notes_route_def login_required_def Let_def d'_def)
  then have st: "store (notes_route d s) = d'"
    by (simp add: respond_def)
  have us: "users_t d' = users_t d"
    by (simp add: d'_def)
  have fk: "\<forall>n \<in> set (notes_t d'). user_exists d' (from_user n) \<and> user_exists d' (to_user n)"
  proof
    fix n' assume "n' \<in> set (notes_t d')"
    then have "n' \<in> set (mark_read (u_id u) (notes_t d))" by (simp add: d'_def)
    then obtain n where "n \<in> set (notes_t d)" "from_user n' = from_user n" "to_user n' = to_user n"
      using mark_read_set by blast
    then show "user_exists d' (from_user n') \<and> user_exists d' (to_user n')"
      using assms(2) us by (simp add: user_exists_def)
  qed
  have j: "join_notes d' = map (annotate d') (notes_t d')"
    using assms(1) fk us by (simp add: join_notes_annotate)
  have sel: "select_notes d' (u_id u) =
      sort_key (\<lambda>v. - n_created_at (fst v))
        (map (annotate d')
           (filter (\<lambda>n. from_user n = u_id u \<or> to_user n = u_id u) (notes_t d')))"
    by (simp add: select_notes_def j filter_map comp_def annotate_def)
  have c2: "d' = d\<lparr>notes_t := map (\<lambda>n. if to_user n = u_id u then n\<lparr>read_flag := 1\<rparr> else n) (notes_t d)\<rparr>"
    by (simp add: d'_def mark_read_def)
  have c3: "\<forall>n \<in> set (notes_t d'). to_user n = u_id u \<longrightarrow> read_flag n = 1"
    using mark_read_set by (fastforce simp: d'_def)
  have c4: "mset (map fst (select_notes d' (u_id u))) =
      mset (filter (\<lambda>n. from_user n = u_id u \<or> to_user n = u_id u) (notes_t d'))"
    by (simp add: sel annotate_def multiset.map_comp comp_def)
  have c5: "sorted_wrt (\<lambda>x y. n_created_at (fst y) \<le> n_created_at (fst x)) (select_notes d' (u_id u))"
  proof -
    have "sorted (map (\<lambda>v. - n_created_at (fst v)) (select_notes d' (u_id u)))"
      by (simp add: select_notes_def)
    then show ?thesis by (simp add: sorted_map)
  qed
  have c6: "\<forall>v \<in> set (select_notes d' (u_id u)).
            map_option display_name (select_user_by_id d (from_user (fst v))) = Some (fst (snd v)) \<and>
            map_option display_name (select_user_by_id d (to_user (fst v))) = Some (snd (snd v))"
  proof
    fix v assume "v \<in> set (select_notes d' (u_id u))"
    then obtain n where n: "n \<in> set (notes_t d')" "v = annotate d' n"
      by (auto simp: sel)
    have ex: "user_exists d' (from_user n)" "user_exists d' (to_user n)"
      using fk n(1) by auto
    have some: "\<exists>x. select_user_by_id d i = Some x" if "user_exists d' i" for i
    proof -
      have "i \<in> set (map u_id (users_t d))" using that us by (simp add: user_exists_def)
      then have "find (\<lambda>x. u_id x = i) (users_t d) \<noteq> None"
        by (auto simp: find_None_iff)
      then show ?thesis by (auto simp: select_user_by_id_def)
    qed
    have same: "select_user_by_id d' i = select_user_by_id d i" for i
      by (simp add: select_user_by_id_def us)
    show "map_option display_name (select_user_by_id d (from_user (fst v))) = Some (fst (snd v)) \<and>
          map_option display_name (select_user_by_id d (to_user (fst v))) = Some (snd (snd v))"
      using some [OF ex(1)] some [OF ex(2)] by (auto simp: n(2) annotate_def same)
  qed
  show ?thesis
    unfolding st using r c2 c3 c4 c5 c6 by blast
qed

text \<open>Bob opens his notes: the two notes Alice sent him become read, and all three
  notes between them are listed, newest first, with both names.\<close>

theorem notes_marks_read_and_lists_witness:
  "notes_route couple (Some 2) =
     respond (couple\<lparr>notes_t := [note1\<lparr>read_flag := 1\<rparr>, note2, note3\<lparr>read_flag := 1\<rparr>]\<rparr>) (Some 2) []
       (NotesPage (bob\<lparr>partner_id := Some 1\<rparr>) (Some (alice\<lparr>partner_id := Some 2\<rparr>))
          [(note3\<lparr>read_flag := 1\<rparr>, ascii ''Alice'', ascii ''Bob''), (note2, ascii ''Bob'', ascii ''Alice''),
           (note1\<lparr>read_flag := 1\<rparr>, ascii ''Alice'', ascii ''Bob'')])"
proof -
  have h: "distinct (map u_id (users_t couple))"
    by code_simp
  have fk: "\<forall>n \<in> set (notes_t couple). user_exists couple (from_user n) \<and> user_exists couple (to_user n)"
    by code_simp
  have c: "current_user couple (Some 2) = Some (bob\<lparr>partner_id := Some 1\<rparr>)"
    by code_simp
  have p: "get_partner couple (Some (bob\<lparr>partner_id := Some 1\<rparr>)) = Some (alice\<lparr>partner_id := Some 2\<rparr>)"
    by code_simp
  have i: "u_id (bob\<lparr>partner_id := Some 1\<rparr>) = 2"
    by (simp add: bob_def)
  have m: "couple\<lparr>notes_t := map (\<lambda>n. if to_user n = 2 then n\<lparr>read_flag := 1\<rparr> else n) (notes_t couple)\<rparr>
      = couple\<lparr>notes_t := [note1\<lparr>read_flag := 1\<rparr>, note2, note3\<lparr>read_flag := 1\<rparr>]\<rparr>"
    by (simp add: couple_def note1_def note2_def note3_def)
  have l: "select_notes (couple\<lparr>notes_t := [note1\<lparr>read_flag := 1\<rparr>, note2, note3\<lparr>read_flag := 1\<rparr>]\<rparr>) 2
      = [(note3\<lparr>read_flag := 1\<rparr>, ascii ''Alice'', ascii ''Bob''), (note2, ascii ''Bob'', ascii ''Alice''),
         (note1\<lparr>read_flag := 1\<rparr>, ascii ''Alice'', ascii ''Bob'')]"
    by code_simp
  have t: "notes_route couple (Some 2) =
       respond (store (notes_route couple (Some 2))) (Some 2) []
         (NotesPage (bob\<lparr>partner_id := Some 1\<rparr>) (get_partner couple (Some (bob\<lparr>partner_id := Some 1\<rparr>)))
            (select_notes (store (notes_route couple (Some 2))) (u_id (bob\<lparr>partner_id := Some 1\<rparr>))))"
    and st: "store (notes_route couple (Some 2)) =
       couple\<lparr>notes_t := map (\<lambda>n. if to_user n = u_id (bob\<lparr>partner_id := Some 1\<rparr>)
                    then n\<lparr>read_flag := 1\<rparr> else n) (notes_t couple)\<rparr>"
    using notes_marks_read_and_lists [OF h fk refl c] by blast+
  show ?thesis
    using t unfolding st i m p l .
qed

end
